theory Spec2Isabelle
  imports Complex_Main
begin

section \<open>Vehicle maneuver simulator: the simulation core of \<open>one vehicle control.py\<close>\<close>

text \<open>
  The embedding follows the Python source function by function. Python floats are
  modelled as the reals: comparison, \<open>max\<close>, \<open>min\<close> and \<open>abs\<close> are exact on floats as
  on reals, while \<open>+\<close>, \<open>*\<close> and \<open>/\<close> are the exact operations here and rounded ones in
  the program; the one statement that depends on the rounding is settled on a second
  rendering of its lines with binary64 rounding written out. Exceptions the loop can
  raise are values of \<open>error\<close>.
\<close>

subsection \<open>Runtime helpers: \<open>math\<close> and \<open>pygame.math.Vector2\<close>\<close>

datatype error = NameError | ZeroDivisionError

type_synonym Vector2 = "real \<times> real"

definition radians :: "real \<Rightarrow> real" where
  "radians d = d * (pi / 180)"

definition degrees :: "real \<Rightarrow> real" where
  "degrees r = r * (180 / pi)"

definition copysign :: "real \<Rightarrow> real \<Rightarrow> real" where
  \<comment> \<open>\<open>math.copysign(x, y)\<close>: the magnitude of \<open>x\<close> with the sign of \<open>y\<close>; the reals have
      no negative zero, so \<open>y = 0\<close> counts as positive.\<close>
  "copysign x y = (if y < 0 then - \<bar>x\<bar> else \<bar>x\<bar>)"

definition rotate_vec :: "Vector2 \<Rightarrow> real \<Rightarrow> Vector2" where
  \<comment> \<open>\<open>Vector2.rotate(angle)\<close>: counterclockwise rotation by \<open>angle\<close> degrees.\<close>
  "rotate_vec v a =
     (let r = radians a
      in (fst v * cos r - snd v * sin r, fst v * sin r + snd v * cos r))"

definition vadd :: "Vector2 \<Rightarrow> Vector2 \<Rightarrow> Vector2" where
  "vadd u v = (fst u + fst v, snd u + snd v)"

definition vscale :: "Vector2 \<Rightarrow> real \<Rightarrow> Vector2" where
  "vscale v k = (fst v * k, snd v * k)"

definition clamp :: "real \<Rightarrow> real \<Rightarrow> real" where
  \<comment> \<open>The idiom \<open>max(-m, min(x, m))\<close> of lines 56, 177 and 185.\<close>
  "clamp m x = max (- m) (min x m)"

subsection \<open>The vehicles\<close>

text \<open>
  Both classes carry \<open>position\<close> and \<open>velocity\<close>; the record \<open>Vehicle\<close> holds the two
  fields so that both keep the source's names. \<open>O_Car\<close> has nothing else; \<open>EGO_Car\<close>
  adds the fields of its constructor (\<open>length\<close> is \<open>length_car\<close> here).
\<close>

record Vehicle =
  position :: Vector2
  velocity :: Vector2

type_synonym O_Car = Vehicle

record EGO_Car = Vehicle +
  angle :: real
  length_car :: real
  max_acceleration :: real
  max_steering :: real
  max_velocity :: real
  brake_deceleration :: real
  free_deceleration :: real
  acceleration :: real
  steering :: real

definition EGO_Car_init :: "real \<Rightarrow> real \<Rightarrow> real \<Rightarrow> real \<Rightarrow> real \<Rightarrow> real \<Rightarrow> EGO_Car" where
  \<comment> \<open>\<open>EGO_Car.__init__(x, y, angle, length, max_steering, max_acceleration)\<close>\<close>
  "EGO_Car_init x y ang len msteer macc =
     \<lparr>position = (x, y), velocity = (8.31, 0), angle = ang, length_car = len,
      max_acceleration = macc, max_steering = msteer, max_velocity = 13.85,
      brake_deceleration = 5, free_deceleration = 1, acceleration = 0, steering = 0\<rparr>"

definition angular_velocity :: "EGO_Car \<Rightarrow> real \<Rightarrow> error + real" where
  \<comment> \<open>Lines 59-63, on the velocity already integrated and clamped. Python raises
      \<open>ZeroDivisionError\<close> on a float division by zero.\<close>
  "angular_velocity c vx =
     (if steering c \<noteq> 0 then
        (if sin (radians (steering c)) = 0 then Inl ZeroDivisionError
         else (let turning_radius = length_car c / sin (radians (steering c))
               in if turning_radius = 0 then Inl ZeroDivisionError
                  else Inr (vx / turning_radius)))
      else Inr 0)"

definition EGO_Car_update :: "real \<Rightarrow> EGO_Car \<Rightarrow> error + EGO_Car" where
  \<comment> \<open>\<open>EGO_Car.update(dt)\<close>, lines 47-67.\<close>
  "EGO_Car_update dt c =
     (let v0 = vadd (velocity c) (acceleration c * dt, 0);
          v = (clamp (max_velocity c) (fst v0), snd v0)
      in case angular_velocity c (fst v) of
           Inl e \<Rightarrow> Inl e
         | Inr av \<Rightarrow>
             Inr (c\<lparr>velocity := v,
                    position := vadd (position c) (vscale (rotate_vec v (- angle c)) dt),
                    angle := angle c + degrees av * dt\<rparr>))"

definition O_Car_init :: "real \<Rightarrow> real \<Rightarrow> real \<Rightarrow> O_Car" where
  \<comment> \<open>\<open>O_Car.__init__(vel, x, y)\<close>\<close>
  "O_Car_init vel x y = \<lparr>position = (x, y), velocity = (0, vel)\<rparr>"

definition O_Car_update :: "real \<Rightarrow> O_Car \<Rightarrow> O_Car" where
  \<comment> \<open>\<open>O_Car.update(dt)\<close>, line 91.\<close>
  "O_Car_update dt c = c\<lparr>position := vadd (position c) (vscale (velocity c) dt)\<rparr>"

subsection \<open>The loop of \<open>Start.run\<close>\<close>

text \<open>
  One iteration reads the clock, polls the events, applies the key state to the ego's
  acceleration and steering, updates the seven vehicles and tests the end conditions.
  Image loading, the log file and the rendering are left out: they read the vehicles
  and never write them. \<open>position_disp\<close> is assigned from \<open>position\<close> in every iteration
  before it is read, so the end conditions read \<open>position\<close>.
\<close>

record keys =
  K_UP :: bool
  K_DOWN :: bool
  K_LEFT :: bool
  K_RIGHT :: bool
  K_ESCAPE :: bool

record frame =
  get_time :: nat
    \<comment> \<open>milliseconds returned by \<open>clock.get_time()\<close>\<close>
  events :: "(bool \<times> keys) list"
    \<comment> \<open>per event of \<open>pygame.event.get()\<close>: whether its type is \<open>QUIT\<close>, and the
        key state \<open>get_pressed()\<close> returns while it is handled\<close>

record sim =
  ecar :: EGO_Car
  amu :: O_Car
  car1 :: O_Car
  car2 :: O_Car
  car3 :: O_Car
  car4 :: O_Car
  car5 :: O_Car
  pressed :: "keys option"
    \<comment> \<open>the local \<open>pressed\<close>: unbound until the first event is handled\<close>
  exit :: bool

definition initial :: "real \<Rightarrow> sim" where
  \<comment> \<open>Lines 110 and 139-146; \<open>random_offset\<close> is the parameter.\<close>
  "initial random_offset =
     \<lparr>ecar = EGO_Car_init random_offset 64 90 4 30 5,
      amu = O_Car_init 8.31 7 70,
      car1 = O_Car_init 8.31 3 89,
      car2 = O_Car_init 8.31 11.5 20,
      car3 = O_Car_init 8.31 7 57,
      car4 = O_Car_init 8.31 3 57,
      car5 = O_Car_init 8.31 11.5 57,
      pressed = None, exit = False\<rparr>"

definition handle_event :: "bool \<times> keys \<Rightarrow> sim \<Rightarrow> sim" where
  \<comment> \<open>Lines 156-158.\<close>
  "handle_event ev s =
     (let s1 = s\<lparr>pressed := Some (snd ev)\<rparr>
      in if fst ev \<or> K_ESCAPE (snd ev) then s1\<lparr>exit := True\<rparr> else s1)"

definition longitudinal :: "real \<Rightarrow> keys \<Rightarrow> EGO_Car \<Rightarrow> EGO_Car" where
  \<comment> \<open>Lines 161-177.\<close>
  "longitudinal dt ks c =
     (let c1 =
        (if K_UP ks then
           (if fst (velocity c) < 0 then c\<lparr>acceleration := brake_deceleration c\<rparr>
            else c\<lparr>acceleration := acceleration c + 1 * dt\<rparr>)
         else if K_DOWN ks then
           (if fst (velocity c) > 0 then c\<lparr>acceleration := - 1 * brake_deceleration c\<rparr>
            else c\<lparr>acceleration := acceleration c - 1 * dt\<rparr>)
         else
           (if \<bar>fst (velocity c)\<bar> > dt * free_deceleration c
            then c\<lparr>acceleration := - copysign (free_deceleration c) (fst (velocity c))\<rparr>
            else if dt \<noteq> 0 then c\<lparr>acceleration := - fst (velocity c) / dt\<rparr>
            else c))
      in c1\<lparr>acceleration := clamp (max_acceleration c1) (acceleration c1)\<rparr>)"

definition lateral :: "real \<Rightarrow> keys \<Rightarrow> EGO_Car \<Rightarrow> EGO_Car" where
  \<comment> \<open>Lines 179-185.\<close>
  "lateral dt ks c =
     (let c1 =
        (if K_RIGHT ks then c\<lparr>steering := steering c - 30 * dt\<rparr>
         else if K_LEFT ks then c\<lparr>steering := steering c + 30 * dt\<rparr>
         else c\<lparr>steering := 0\<rparr>)
      in c1\<lparr>steering := clamp (max_steering c1) (steering c1)\<rparr>)"

datatype outcome = End_of_the_round | Crash

definition near :: "Vector2 \<Rightarrow> Vector2 \<Rightarrow> bool" where
  \<comment> \<open>One clause of lines 225-230: ego position, other position.\<close>
  "near e other =
     ((- 4 < snd e - snd other \<and> snd e - snd other < 4) \<and>
      (- 2 < fst e - fst other \<and> fst e - fst other < 2))"

definition end_condition :: "sim \<Rightarrow> bool" where
  \<comment> \<open>The condition of lines 224-231, in the source's order.\<close>
  "end_condition s =
     (snd (position (amu s)) < 1 \<or>
      near (position (ecar s)) (position (amu s)) \<or>
      near (position (ecar s)) (position (car3 s)) \<or>
      near (position (ecar s)) (position (car2 s)) \<or>
      near (position (ecar s)) (position (car1 s)) \<or>
      near (position (ecar s)) (position (car4 s)) \<or>
      near (position (ecar s)) (position (car5 s)) \<or>
      (fst (position (ecar s)) > 14.5 \<or> fst (position (ecar s)) < 0))"

definition check_end :: "sim \<Rightarrow> outcome option" where
  \<comment> \<open>Lines 224-236: what is printed before the \<open>break\<close>, \<open>None\<close> when the loop goes on.\<close>
  "check_end s =
     (if end_condition s
      then (if snd (position (amu s)) < 1 then Some End_of_the_round else Some Crash)
      else None)"

definition tick :: "real \<Rightarrow> sim \<Rightarrow> error + (sim \<times> outcome option)" where
  \<comment> \<open>Lines 161-236 for a given \<open>dt\<close>, after the events have been handled.\<close>
  "tick dt s =
     (case pressed s of
        None \<Rightarrow> Inl NameError
      | Some ks \<Rightarrow>
          (case EGO_Car_update dt (lateral dt ks (longitudinal dt ks (ecar s))) of
             Inl e \<Rightarrow> Inl e
           | Inr c \<Rightarrow>
               (let s1 = s\<lparr>ecar := c,
                          amu := O_Car_update (- dt) (amu s),
                          car1 := O_Car_update (- dt) (car1 s),
                          car2 := O_Car_update (- dt) (car2 s),
                          car3 := O_Car_update (- dt) (car3 s),
                          car4 := O_Car_update (- dt) (car4 s),
                          car5 := O_Car_update (- dt) (car5 s)\<rparr>
                in Inr (s1, check_end s1))))"

definition frame_dt :: "frame \<Rightarrow> real" where
  \<comment> \<open>Line 152.\<close>
  "frame_dt f = real (get_time f) / 1000"

definition iteration :: "frame \<Rightarrow> sim \<Rightarrow> error + (sim \<times> outcome option)" where
  \<comment> \<open>The loop body, lines 152-236.\<close>
  "iteration f s = tick (frame_dt f) (fold handle_event (events f) s)"

datatype result =
  Raised error
  | Stopped outcome sim
  | Quit sim
  | Pending sim

fun run :: "frame list \<Rightarrow> sim \<Rightarrow> result" where
  "run [] s = (if exit s then Quit s else Pending s)"
| "run (f # fs) s =
     (if exit s then Quit s
      else (case iteration f s of
              Inl e \<Rightarrow> Raised e
            | Inr (s1, Some out) \<Rightarrow> Stopped out s1
            | Inr (s1, None) \<Rightarrow> run fs s1))"

fun final_state :: "result \<Rightarrow> sim option" where
  "final_state (Raised e) = None"
| "final_state (Stopped out s) = Some s"
| "final_state (Quit s) = Some s"
| "final_state (Pending s) = Some s"

subsection \<open>Binary64 arithmetic\<close>

text \<open>
  The program computes in IEEE-754 binary64. Where a statement depends on the rounding,
  the lines concerned are given a second time with every arithmetic result passed through
  a rounding function \<open>rnd\<close>: the identity gives the exact arithmetic of the definitions
  above, \<open>round64\<close> gives round-to-nearest-even to 53 significant bits (normal range only:
  neither subnormal numbers nor overflow are modelled).
\<close>

definition round_even :: "real \<Rightarrow> int" where
  \<comment> \<open>The nearest integer, ties to the even one.\<close>
  "round_even y =
     (let f = \<lfloor>y\<rfloor>
      in if y - of_int f < 1 / 2 then f
         else if 1 / 2 < y - of_int f then f + 1
         else if even f then f else f + 1)"

definition ulp64 :: "real \<Rightarrow> real" where
  \<comment> \<open>The spacing of binary64 numbers in the binade of \<open>x\<close>.\<close>
  "ulp64 x = 2 powr (of_int \<lfloor>log 2 \<bar>x\<bar>\<rfloor> - 52)"

definition round64 :: "real \<Rightarrow> real" where
  "round64 x = (if x = 0 then 0 else of_int (round_even (x / ulp64 x)) * ulp64 x)"

definition frame_dt_rnd :: "(real \<Rightarrow> real) \<Rightarrow> frame \<Rightarrow> real" where
  \<comment> \<open>Line 152 with the quotient rounded.\<close>
  "frame_dt_rnd rnd f = rnd (real (get_time f) / 1000)"

definition longitudinal_rnd ::
  "(real \<Rightarrow> real) \<Rightarrow> real \<Rightarrow> keys \<Rightarrow> EGO_Car \<Rightarrow> EGO_Car" where
  \<comment> \<open>Lines 161-177 with the results of \<open>+\<close>, \<open>-\<close>, \<open>*\<close> and \<open>/\<close> rounded.\<close>
  "longitudinal_rnd rnd dt ks c =
     (let c1 =
        (if K_UP ks then
           (if fst (velocity c) < 0 then c\<lparr>acceleration := brake_deceleration c\<rparr>
            else c\<lparr>acceleration := rnd (acceleration c + rnd (1 * dt))\<rparr>)
         else if K_DOWN ks then
           (if fst (velocity c) > 0 then c\<lparr>acceleration := rnd (- 1 * brake_deceleration c)\<rparr>
            else c\<lparr>acceleration := rnd (acceleration c - rnd (1 * dt))\<rparr>)
         else
           (if \<bar>fst (velocity c)\<bar> > rnd (dt * free_deceleration c)
            then c\<lparr>acceleration := - copysign (free_deceleration c) (fst (velocity c))\<rparr>
            else if dt \<noteq> 0 then c\<lparr>acceleration := rnd (- fst (velocity c) / dt)\<rparr>
            else c))
      in c1\<lparr>acceleration := clamp (max_acceleration c1) (acceleration c1)\<rparr>)"

definition integrate_rnd :: "(real \<Rightarrow> real) \<Rightarrow> real \<Rightarrow> EGO_Car \<Rightarrow> real" where
  \<comment> \<open>Lines 55-56 with the results rounded: the new \<open>velocity.x\<close>.\<close>
  "integrate_rnd rnd dt c =
     clamp (max_velocity c) (rnd (fst (velocity c) + rnd (acceleration c * dt)))"

subsection \<open>Concrete key states, frames and scenes\<close>

definition no_keys :: keys where
  "no_keys = \<lparr>K_UP = False, K_DOWN = False, K_LEFT = False, K_RIGHT = False, K_ESCAPE = False\<rparr>"

definition idle_frame :: "nat \<Rightarrow> frame" where
  \<comment> \<open>A frame of the given duration with one event that is not \<open>QUIT\<close> and no key held.\<close>
  "idle_frame ms = \<lparr>get_time = ms, events = [(False, no_keys)]\<rparr>"

definition scene_close :: sim where
  \<comment> \<open>Ego at (7, 64), the ambulance at (7, 67).\<close>
  "scene_close = (initial 7)\<lparr>amu := O_Car_init 8.31 7 67\<rparr>"

definition scene_outside :: sim where
  \<comment> \<open>Ego at x = 15, right of the corridor, with no vehicle within the box.\<close>
  "scene_outside = (initial 7)\<lparr>ecar := EGO_Car_init 15 64 90 4 30 5\<rparr>"

definition scene_exited :: sim where
  \<comment> \<open>The ambulance past the exit line while the ego is outside the corridor.\<close>
  "scene_exited = scene_outside\<lparr>amu := O_Car_init 8.31 7 0.5\<rparr>"

definition scene_close_checked :: sim where
  \<comment> \<open>\<open>scene_close\<close> after an iteration of duration 0 with no key held.\<close>
  "scene_close_checked =
     scene_close\<lparr>ecar := (ecar scene_close)\<lparr>acceleration := - 1\<rparr>, pressed := Some no_keys\<rparr>"

definition scene_after_1s :: sim where
  \<comment> \<open>The constructed scene (offset 7) after one iteration of 1000 ms with no key held.\<close>
  "scene_after_1s =
     \<lparr>ecar = (EGO_Car_init 7 56.69 90 4 30 5)\<lparr>velocity := (7.31, 0), acceleration := - 1\<rparr>,
      amu = O_Car_init 8.31 7 61.69,
      car1 = O_Car_init 8.31 3 80.69,
      car2 = O_Car_init 8.31 11.5 11.69,
      car3 = O_Car_init 8.31 7 48.69,
      car4 = O_Car_init 8.31 3 48.69,
      car5 = O_Car_init 8.31 11.5 48.69,
      pressed = Some no_keys, exit = False\<rparr>"

definition scene_close_started :: sim where
  \<comment> \<open>\<open>scene_close\<close> once a first event has bound \<open>pressed\<close>, no key held.\<close>
  "scene_close_started = scene_close\<lparr>pressed := Some no_keys\<rparr>"

definition ego_turning :: EGO_Car where
  \<comment> \<open>The constructed ego with the steering at +30 degrees.\<close>
  "ego_turning = (EGO_Car_init 7 64 90 4 30 5)\<lparr>steering := 30\<rparr>"

definition ego_turned :: EGO_Car where
  \<comment> \<open>\<open>ego_turning\<close> after an update of one second.\<close>
  "ego_turned = ego_turning\<lparr>position := (7, 55.69), angle := 90 + degrees (8.31 / 8) * 1\<rparr>"

definition ego_slow :: EGO_Car where
  \<comment> \<open>The constructed ego slowed to the binary64 number 0x1.47ae147aedc94p-7, about 0.01.\<close>
  "ego_slow = (EGO_Car_init 7 30 90 4 30 5)
     \<lparr>velocity := (1441151880771365 / 2 ^ 57, 0), acceleration := - 1\<rparr>"

definition ego_stopped :: EGO_Car where
  \<comment> \<open>\<open>ego_slow\<close> after a no-input update of 1/50 s in exact arithmetic.\<close>
  "ego_stopped =
     ego_slow\<lparr>velocity := (0, 0), acceleration := - (1441151880771365 / 2 ^ 57) / (1 / 50)\<rparr>"

subsection \<open>Observations used in the statements\<close>

definition lateral_of :: "sim \<Rightarrow> real list" where
  \<comment> \<open>The x-coordinates of the six non-controlled vehicles.\<close>
  "lateral_of s =
     map (\<lambda>c. fst (position c)) [amu s, car1 s, car2 s, car3 s, car4 s, car5 s]"

definition sideways_of :: "sim \<Rightarrow> real list" where
  \<comment> \<open>The x-components of their velocities.\<close>
  "sideways_of s =
     map (\<lambda>c. fst (velocity c)) [amu s, car1 s, car2 s, car3 s, car4 s, car5 s]"

definition within_limits :: "EGO_Car \<Rightarrow> bool" where
  "within_limits c =
     (\<bar>fst (velocity c)\<bar> \<le> max_velocity c \<and> \<bar>steering c\<bar> \<le> max_steering c \<and>
      \<bar>acceleration c\<bar> \<le> max_acceleration c)"

definition limits_of :: "EGO_Car \<Rightarrow> real \<times> real \<times> real" where
  "limits_of c = (max_velocity c, max_steering c, max_acceleration c)"

section \<open>Properties\<close>

subsection \<open>Evaluation and auxiliary facts\<close>

lemmas scene_defs = initial_def scene_close_def scene_outside_def
  scene_exited_def scene_close_checked_def scene_after_1s_def scene_close_started_def
  ego_turning_def ego_turned_def
  EGO_Car_init_def O_Car_init_def no_keys_def idle_frame_def

lemmas step_defs = tick_def iteration_def frame_dt_def handle_event_def
  longitudinal_def lateral_def copysign_def clamp_def EGO_Car_update_def
  angular_velocity_def vadd_def vscale_def degrees_def O_Car_update_def
  check_end_def end_condition_def near_def

lemma near_abs: "near e other = (\<bar>snd e - snd other\<bar> < 4 \<and> \<bar>fst e - fst other\<bar> < 2)"
  by (auto simp: near_def)

lemma clamp_abs: "0 \<le> m \<Longrightarrow> \<bar>clamp m x\<bar> \<le> m"
  by (auto simp: clamp_def)

lemma clamp_id: "\<bar>x\<bar> \<le> m \<Longrightarrow> clamp m x = x"
  by (auto simp: clamp_def)

lemma rotate_minus_90: "rotate_vec (vx, 0) (- 90) = (0, - vx)"
  by (simp add: rotate_vec_def radians_def)

lemma run_one_idle: "run [idle_frame 1000] (initial 7) = Pending scene_after_1s"
  by (simp add: scene_defs step_defs rotate_minus_90)

lemma iteration_scene_close:
  "iteration (idle_frame 0) scene_close = Inr (scene_close_checked, Some Crash)"
  by (simp add: scene_defs step_defs rotate_minus_90)

lemma run_stopped_append:
  "run fs s = Stopped out s1 \<Longrightarrow> run (fs @ rest) s = Stopped out s1"
proof (induction fs arbitrary: s)
  case Nil
  then show ?case by (simp split: if_splits)
next
  case (Cons f fs)
  then show ?case
    by (auto split: if_splits sum.splits option.splits prod.splits)
qed

lemma O_Car_update_velocity: "velocity (O_Car_update dt c) = velocity c"
  by (simp add: O_Car_update_def)

lemma O_Car_update_x:
  "fst (velocity c) = 0 \<Longrightarrow> fst (position (O_Car_update dt c)) = fst (position c)"
  by (simp add: O_Car_update_def vadd_def vscale_def)

lemma fold_O_Car_update:
  "fst (velocity c) = 0 \<Longrightarrow>
   fst (position (fold O_Car_update dts c)) = fst (position c) \<and>
   velocity (fold O_Car_update dts c) = velocity c"
  by (induction dts arbitrary: c) (simp_all add: O_Car_update_velocity O_Car_update_x)

lemma tick_others:
  "tick dt s = Inr (s1, r) \<Longrightarrow>
   amu s1 = O_Car_update (- dt) (amu s) \<and> car1 s1 = O_Car_update (- dt) (car1 s) \<and>
   car2 s1 = O_Car_update (- dt) (car2 s) \<and> car3 s1 = O_Car_update (- dt) (car3 s) \<and>
   car4 s1 = O_Car_update (- dt) (car4 s) \<and> car5 s1 = O_Car_update (- dt) (car5 s)"
  by (auto simp: tick_def Let_def split: option.splits sum.splits)

lemma fold_handle_event_cars:
  "ecar (fold handle_event evs s) = ecar s \<and> amu (fold handle_event evs s) = amu s \<and>
   car1 (fold handle_event evs s) = car1 s \<and> car2 (fold handle_event evs s) = car2 s \<and>
   car3 (fold handle_event evs s) = car3 s \<and> car4 (fold handle_event evs s) = car4 s \<and>
   car5 (fold handle_event evs s) = car5 s"
  by (induction evs arbitrary: s) (simp_all add: handle_event_def Let_def)

lemma iteration_others:
  "iteration f s = Inr (s1, r) \<Longrightarrow>
   amu s1 = O_Car_update (- frame_dt f) (amu s) \<and> car1 s1 = O_Car_update (- frame_dt f) (car1 s) \<and>
   car2 s1 = O_Car_update (- frame_dt f) (car2 s) \<and> car3 s1 = O_Car_update (- frame_dt f) (car3 s) \<and>
   car4 s1 = O_Car_update (- frame_dt f) (car4 s) \<and> car5 s1 = O_Car_update (- frame_dt f) (car5 s)"
  unfolding iteration_def by (drule tick_others) (simp add: fold_handle_event_cars)

lemma iteration_lateral:
  "iteration f s = Inr (s1, r) \<Longrightarrow> sideways_of s = [0, 0, 0, 0, 0, 0] \<Longrightarrow>
   sideways_of s1 = [0, 0, 0, 0, 0, 0] \<and> lateral_of s1 = lateral_of s"
  by (drule iteration_others)
    (simp add: sideways_of_def lateral_of_def O_Car_update_velocity O_Car_update_x)

lemma run_lateral:
  "final_state (run fs s) = Some s1 \<Longrightarrow> sideways_of s = [0, 0, 0, 0, 0, 0] \<Longrightarrow>
   lateral_of s1 = lateral_of s"
proof (induction fs arbitrary: s)
  case Nil
  then show ?case by (simp split: if_splits)
next
  case (Cons f fs)
  show ?case
  proof (cases "exit s")
    case True
    with Cons.prems show ?thesis by simp
  next
    case False
    show ?thesis
    proof (cases "iteration f s")
      case (Inl e)
      with False Cons.prems show ?thesis by simp
    next
      case (Inr p)
      obtain s2 r where p: "p = (s2, r)" by (cases p)
      from Inr p Cons.prems(2)
      have inv: "sideways_of s2 = [0, 0, 0, 0, 0, 0]" "lateral_of s2 = lateral_of s"
        using iteration_lateral by blast+
      show ?thesis
      proof (cases r)
        case None
        with False Inr p Cons.prems(1) have "final_state (run fs s2) = Some s1" by simp
        with Cons.IH inv show ?thesis by simp
      next
        case (Some out)
        with False Inr p Cons.prems(1) have "s1 = s2" by simp
        with inv show ?thesis by simp
      qed
    qed
  qed
qed

lemma radians_bounds:
  "0 < x \<Longrightarrow> x < 180 \<Longrightarrow> 0 < radians x \<and> radians x < pi"
proof -
  assume a: "0 < x" "x < 180"
  have "x * (pi / 180) < 180 * (pi / 180)"
    using a(2) by (intro mult_strict_right_mono) simp_all
  with a(1) show ?thesis by (simp add: radians_def)
qed

lemma sin_radians_nonzero:
  assumes "x \<noteq> 0" "\<bar>x\<bar> < 180"
  shows "sin (radians x) \<noteq> 0"
proof (cases "0 < x")
  case True
  with assms radians_bounds [of x] have "0 < sin (radians x)"
    by (intro sin_gt_zero) simp_all
  then show ?thesis by simp
next
  case False
  with assms have "0 < - x" "- x < 180" by simp_all
  with radians_bounds [of "- x"] have "0 < sin (radians (- x))"
    by (intro sin_gt_zero) simp_all
  moreover have "radians (- x) = - radians x" by (simp add: radians_def)
  ultimately show ?thesis by simp
qed

lemma angular_velocity_ok:
  "steering c \<noteq> 0 \<Longrightarrow> length_car c \<noteq> 0 \<Longrightarrow> \<bar>steering c\<bar> < 180 \<Longrightarrow>
   angular_velocity c vx = Inr (vx / (length_car c / sin (radians (steering c))))"
  by (simp add: angular_velocity_def sin_radians_nonzero)

lemma angular_velocity_straight: "steering c = 0 \<Longrightarrow> angular_velocity c vx = Inr 0"
  by (simp add: angular_velocity_def)

lemma angular_velocity_Inr:
  "angular_velocity c vx = Inr av \<Longrightarrow>
   av = (if steering c \<noteq> 0 then vx / (length_car c / sin (radians (steering c))) else 0)"
  by (auto simp: angular_velocity_def Let_def split: if_splits)

lemma EGO_Car_update_Inr:
  "EGO_Car_update dt c = Inr c1 \<Longrightarrow>
   velocity c1 = (clamp (max_velocity c) (fst (velocity c) + acceleration c * dt), snd (velocity c)) \<and>
   angle c1 = angle c + degrees (if steering c \<noteq> 0
       then fst (velocity c1) / (length_car c / sin (radians (steering c))) else 0) * dt \<and>
   position c1 = vadd (position c) (vscale (rotate_vec (velocity c1) (- angle c)) dt) \<and>
   steering c1 = steering c \<and> acceleration c1 = acceleration c \<and>
   max_velocity c1 = max_velocity c \<and> max_steering c1 = max_steering c \<and>
   max_acceleration c1 = max_acceleration c \<and> length_car c1 = length_car c \<and>
   free_deceleration c1 = free_deceleration c \<and> brake_deceleration c1 = brake_deceleration c"
  by (auto simp: EGO_Car_update_def Let_def vadd_def split: sum.splits dest!: angular_velocity_Inr)

lemma longitudinal_fields:
  "position (longitudinal dt ks c) = position c \<and> velocity (longitudinal dt ks c) = velocity c \<and>
   angle (longitudinal dt ks c) = angle c \<and> steering (longitudinal dt ks c) = steering c \<and>
   length_car (longitudinal dt ks c) = length_car c \<and>
   max_velocity (longitudinal dt ks c) = max_velocity c \<and>
   max_steering (longitudinal dt ks c) = max_steering c \<and>
   max_acceleration (longitudinal dt ks c) = max_acceleration c \<and>
   free_deceleration (longitudinal dt ks c) = free_deceleration c \<and>
   brake_deceleration (longitudinal dt ks c) = brake_deceleration c"
  by (simp add: longitudinal_def Let_def)

lemma longitudinal_bound:
  "0 \<le> max_acceleration c \<Longrightarrow> \<bar>acceleration (longitudinal dt ks c)\<bar> \<le> max_acceleration c"
  by (simp add: longitudinal_def Let_def clamp_abs)

lemma lateral_fields:
  "position (lateral dt ks c) = position c \<and> velocity (lateral dt ks c) = velocity c \<and>
   angle (lateral dt ks c) = angle c \<and> acceleration (lateral dt ks c) = acceleration c \<and>
   length_car (lateral dt ks c) = length_car c \<and>
   max_velocity (lateral dt ks c) = max_velocity c \<and>
   max_steering (lateral dt ks c) = max_steering c \<and>
   max_acceleration (lateral dt ks c) = max_acceleration c \<and>
   free_deceleration (lateral dt ks c) = free_deceleration c \<and>
   brake_deceleration (lateral dt ks c) = brake_deceleration c"
  by (simp add: lateral_def Let_def)

lemma lateral_bound:
  "0 \<le> max_steering c \<Longrightarrow> \<bar>steering (lateral dt ks c)\<bar> \<le> max_steering c"
  by (simp add: lateral_def Let_def clamp_abs)

lemma tick_ego:
  "tick dt s = Inr (s1, r) \<Longrightarrow>
   \<exists>ks. pressed s = Some ks \<and>
        EGO_Car_update dt (lateral dt ks (longitudinal dt ks (ecar s))) = Inr (ecar s1)"
  by (auto simp: tick_def Let_def split: option.splits sum.splits)

lemma tick_flags:
  "tick dt s = Inr (s1, r) \<Longrightarrow> exit s1 = exit s \<and> pressed s1 = pressed s \<and> r = check_end s1"
  by (auto simp: tick_def Let_def split: option.splits sum.splits)

lemma tick_limits:
  assumes "tick dt s = Inr (s1, r)"
    and "0 \<le> max_velocity (ecar s)" "0 \<le> max_steering (ecar s)" "0 \<le> max_acceleration (ecar s)"
  shows "within_limits (ecar s1) \<and> limits_of (ecar s1) = limits_of (ecar s)"
proof -
  from tick_ego [OF assms(1)] obtain ks where
    u: "EGO_Car_update dt (lateral dt ks (longitudinal dt ks (ecar s))) = Inr (ecar s1)"
    by blast
  let ?c = "lateral dt ks (longitudinal dt ks (ecar s))"
  have c: "max_velocity ?c = max_velocity (ecar s)" "max_steering ?c = max_steering (ecar s)"
    "max_acceleration ?c = max_acceleration (ecar s)"
    by (simp_all add: lateral_fields longitudinal_fields)
  have st: "\<bar>steering ?c\<bar> \<le> max_steering (ecar s)"
    using lateral_bound [of "longitudinal dt ks (ecar s)" dt ks] assms(3)
    by (simp add: longitudinal_fields)
  have ac: "\<bar>acceleration ?c\<bar> \<le> max_acceleration (ecar s)"
    using longitudinal_bound [of "ecar s" dt ks] assms(4) by (simp add: lateral_fields)
  from EGO_Car_update_Inr [OF u] c st ac assms(2) show ?thesis
    by (simp add: within_limits_def limits_of_def clamp_abs)
qed

lemma iteration_limits:
  assumes "iteration f s = Inr (s1, r)"
    and "0 \<le> max_velocity (ecar s)" "0 \<le> max_steering (ecar s)" "0 \<le> max_acceleration (ecar s)"
  shows "within_limits (ecar s1) \<and> limits_of (ecar s1) = limits_of (ecar s)"
  using assms tick_limits [of "frame_dt f" "fold handle_event (events f) s" s1 r]
  by (simp add: iteration_def fold_handle_event_cars)

lemma run_limits:
  assumes "final_state (run fs s) = Some s1"
    and "0 \<le> max_velocity (ecar s)" "0 \<le> max_steering (ecar s)" "0 \<le> max_acceleration (ecar s)"
    and "within_limits (ecar s) \<or> (fs \<noteq> [] \<and> \<not> exit s)"
  shows "within_limits (ecar s1) \<and> limits_of (ecar s1) = limits_of (ecar s)"
  using assms
proof (induction fs arbitrary: s)
  case Nil
  then show ?case by (simp split: if_splits)
next
  case (Cons f fs)
  show ?case
  proof (cases "exit s")
    case True
    with Cons.prems show ?thesis by simp
  next
    case False
    show ?thesis
    proof (cases "iteration f s")
      case (Inl e)
      with False Cons.prems show ?thesis by simp
    next
      case (Inr p)
      obtain s2 r where p: "p = (s2, r)" by (cases p)
      from Inr p Cons.prems(2-4)
      have inv: "within_limits (ecar s2)" "limits_of (ecar s2) = limits_of (ecar s)"
        using iteration_limits by blast+
      show ?thesis
      proof (cases r)
        case None
        with False Inr p Cons.prems(1) have "final_state (run fs s2) = Some s1" by simp
        moreover from inv(2) Cons.prems(2-4) have "0 \<le> max_velocity (ecar s2)"
          "0 \<le> max_steering (ecar s2)" "0 \<le> max_acceleration (ecar s2)"
          by (simp_all add: limits_of_def)
        ultimately have "within_limits (ecar s1) \<and> limits_of (ecar s1) = limits_of (ecar s2)"
          using Cons.IH inv(1) by blast
        with inv(2) show ?thesis by simp
      next
        case (Some out)
        with False Inr p Cons.prems(1) have "s1 = s2" by simp
        with inv show ?thesis by simp
      qed
    qed
  qed
qed

lemma sin_radians_30: "sin (radians 30) = 1 / 2"
proof -
  have "(30 :: real) * (pi / 180) = pi / 6" by simp
  then show ?thesis unfolding radians_def by (simp only: sin_30)
qed

lemma update_ego_turning: "EGO_Car_update 1 ego_turning = Inr ego_turned"
  by (simp add: ego_turning_def ego_turned_def EGO_Car_init_def EGO_Car_update_def
      angular_velocity_def sin_radians_30 vadd_def vscale_def clamp_def rotate_minus_90)

lemma O_Car_update_0: "O_Car_update 0 c = c"
  by (simp add: O_Car_update_def vadd_def vscale_def)

lemma check_end_positions:
  "position (ecar s1) = position (ecar s) \<Longrightarrow> amu s1 = amu s \<Longrightarrow> car1 s1 = car1 s \<Longrightarrow>
   car2 s1 = car2 s \<Longrightarrow> car3 s1 = car3 s \<Longrightarrow> car4 s1 = car4 s \<Longrightarrow> car5 s1 = car5 s \<Longrightarrow>
   check_end s1 = check_end s"
  by (simp add: check_end_def end_condition_def)

lemma tick_0_frame:
  assumes "tick 0 s = Inr (s1, r)"
  shows "position (ecar s1) = position (ecar s) \<and> angle (ecar s1) = angle (ecar s) \<and>
    velocity (ecar s1) = (clamp (max_velocity (ecar s)) (fst (velocity (ecar s))), snd (velocity (ecar s))) \<and>
    amu s1 = amu s \<and> car1 s1 = car1 s \<and> car2 s1 = car2 s \<and> car3 s1 = car3 s \<and>
    car4 s1 = car4 s \<and> car5 s1 = car5 s"
proof -
  from tick_ego [OF assms] obtain ks where
    u: "EGO_Car_update 0 (lateral 0 ks (longitudinal 0 ks (ecar s))) = Inr (ecar s1)"
    by blast
  from EGO_Car_update_Inr [OF u] tick_others [OF assms] show ?thesis
    by (simp add: lateral_fields longitudinal_fields vadd_def vscale_def O_Car_update_0)
qed

lemma tick_0_total:
  assumes "pressed s = Some ks" "length_car (ecar s) \<noteq> 0"
    "0 \<le> max_steering (ecar s)" "max_steering (ecar s) < 180"
  shows "\<exists>s1. tick 0 s = Inr (s1, check_end s)"
proof -
  let ?c = "lateral 0 ks (longitudinal 0 ks (ecar s))"
  have "\<bar>steering ?c\<bar> \<le> max_steering (ecar s)"
    using lateral_bound [of "longitudinal 0 ks (ecar s)" 0 ks] assms(3)
    by (simp add: longitudinal_fields)
  with assms(4) have st: "\<bar>steering ?c\<bar> < 180" by simp
  have len: "length_car ?c \<noteq> 0" using assms(2) by (simp add: lateral_fields longitudinal_fields)
  have "\<exists>c1. EGO_Car_update 0 ?c = Inr c1"
  proof (cases "steering ?c = 0")
    case True
    then show ?thesis by (simp add: EGO_Car_update_def Let_def angular_velocity_straight)
  next
    case False
    with st len show ?thesis by (simp add: EGO_Car_update_def Let_def angular_velocity_ok)
  qed
  with assms(1) obtain s1 r where t: "tick 0 s = Inr (s1, r)"
    by (auto simp: tick_def Let_def)
  from tick_0_frame [OF t] have "check_end s1 = check_end s"
    by (intro check_end_positions) simp_all
  with tick_flags [OF t] t show ?thesis by simp
qed

lemma tick_scene_close: "tick 0 scene_close_started = Inr (scene_close_checked, Some Crash)"
  by (simp add: scene_close_started_def scene_defs step_defs rotate_minus_90)

lemma floor_log2_small:
  assumes "1 \<le> \<bar>x\<bar> * 2 ^ n" "\<bar>x\<bar> * 2 ^ n < 2"
  shows "\<lfloor>log 2 \<bar>x\<bar>\<rfloor> = - int n"
proof -
  have pos: "0 < \<bar>x\<bar>" using assms(1) by (cases "x = 0") simp_all
  have p: "(2::real) powr (- real n) = 1 / 2 ^ n"
    by (simp add: powr_minus powr_realpow divide_inverse)
  have "2 powr (- real n) \<le> \<bar>x\<bar>"
    using assms(1) by (simp add: p field_simps)
  then have lo: "- real n \<le> log 2 \<bar>x\<bar>"
    using pos by (simp add: le_log_iff)
  have "(2::real) powr (- real n + 1) = 2 powr (- real n) * 2 powr 1"
    by (rule powr_add)
  then have q: "(2::real) powr (- real n + 1) = 2 / 2 ^ n"
    by (simp only: p powr_one zero_le_numeral)
  have "\<bar>x\<bar> < 2 / 2 ^ n"
    using assms(2) by (simp add: field_simps)
  then have "\<bar>x\<bar> < 2 powr (- real n + 1)"
    by (simp only: q)
  then have hi: "log 2 \<bar>x\<bar> < - real n + 1"
    using pos by (simp add: log_less_iff)
  from lo hi show ?thesis by (simp add: floor_eq_iff)
qed

lemma ulp64_small:
  assumes "1 \<le> \<bar>x\<bar> * 2 ^ n" "\<bar>x\<bar> * 2 ^ n < 2"
  shows "ulp64 x = 1 / 2 ^ (n + 52)"
proof -
  have "ulp64 x = 2 powr (- real (n + 52))"
    by (simp add: ulp64_def floor_log2_small [OF assms])
  also have "\<dots> = 1 / 2 ^ (n + 52)"
    by (simp only: powr_minus powr_realpow zero_less_numeral divide_inverse mult_1)
  finally show ?thesis .
qed

lemma round64_small:
  assumes "1 \<le> \<bar>x\<bar> * 2 ^ n" "\<bar>x\<bar> * 2 ^ n < 2"
  shows "round64 x = of_int (round_even (x * 2 ^ (n + 52))) / 2 ^ (n + 52)"
proof -
  have "x \<noteq> 0" using assms(1) by auto
  then show ?thesis by (simp add: round64_def ulp64_small [OF assms])
qed

lemma dt20: "round64 (20 / 1000) = 5764607523034235 / 2 ^ 58"
  by (subst round64_small [of _ 6]) (simp_all add: round_even_def)

lemma a20: "round64 (- (1441151880771365 / 2 ^ 57) / (5764607523034235 / 2 ^ 58)) = - (1125899906852629 / 2 ^ 51)"
  by (subst round64_small [of _ 1]) (simp_all add: round_even_def)

lemma p20: "round64 (- (1125899906852629 / 2 ^ 51) * (5764607523034235 / 2 ^ 58)) = - (5764607523085461 / 2 ^ 59)"
  by (subst round64_small [of _ 7]) (simp_all add: round_even_def)

lemma v20: "round64 (1441151880771365 / 2 ^ 57 + - (5764607523085461 / 2 ^ 59)) = - (1 / 2 ^ 59)"
  by (subst round64_small [of _ 59]) (simp_all add: round_even_def)

lemma longitudinal_rnd_exact: "longitudinal_rnd (\<lambda>x. x) dt ks c = longitudinal dt ks c"
  by (simp add: longitudinal_rnd_def longitudinal_def)

lemma integrate_rnd_exact:
  "EGO_Car_update dt c = Inr c1 \<Longrightarrow> fst (velocity c1) = integrate_rnd (\<lambda>x. x) dt c"
  by (drule EGO_Car_update_Inr) (simp add: integrate_rnd_def)

lemma round_even_nonneg: "0 \<le> y \<Longrightarrow> 0 \<le> round_even y"
  by (simp add: round_even_def Let_def)

lemma round64_nonneg: "0 \<le> x \<Longrightarrow> 0 \<le> round64 x"
proof -
  assume a: "0 \<le> x"
  have u: "0 < ulp64 x" by (simp add: ulp64_def)
  with a have "0 \<le> x / ulp64 x" by simp
  then have "0 \<le> round_even (x / ulp64 x)" by (rule round_even_nonneg)
  with u show ?thesis by (simp add: round64_def)
qed

lemma round64_0: "round64 0 = 0"
  by (simp add: round64_def)

lemma dt20_fixed: "round64 (5764607523034235 / 2 ^ 58) = 5764607523034235 / 2 ^ 58"
  by (subst round64_small [of _ 6]) (simp_all add: round_even_def)

lemma stop_20ms:
  "frame_dt_rnd round64 (idle_frame 20) = 5764607523034235 / 2 ^ 58 \<and>
   acceleration (longitudinal_rnd round64 (5764607523034235 / 2 ^ 58) no_keys ego_slow) =
     - (1125899906852629 / 2 ^ 51) \<and>
   integrate_rnd round64 (5764607523034235 / 2 ^ 58)
     (longitudinal_rnd round64 (5764607523034235 / 2 ^ 58) no_keys ego_slow) = - (1 / 2 ^ 59)"
proof -
  have d: "frame_dt_rnd round64 (idle_frame 20) = 5764607523034235 / 2 ^ 58"
    using dt20 by (simp add: frame_dt_rnd_def idle_frame_def)
  have l: "longitudinal_rnd round64 (5764607523034235 / 2 ^ 58) no_keys ego_slow =
      ego_slow\<lparr>acceleration := - (1125899906852629 / 2 ^ 51)\<rparr>"
    using a20 dt20_fixed
    by (simp add: longitudinal_rnd_def ego_slow_def EGO_Car_init_def no_keys_def clamp_def)
  have i: "integrate_rnd round64 (5764607523034235 / 2 ^ 58)
      (ego_slow\<lparr>acceleration := - (1125899906852629 / 2 ^ 51)\<rparr>) = - (1 / 2 ^ 59)"
    using p20 v20 by (simp add: integrate_rnd_def ego_slow_def EGO_Car_init_def clamp_def)
  from d l i show ?thesis by simp
qed

lemma coasting_real:
  assumes "0 < dt" "\<not> K_UP ks" "\<not> K_DOWN ks"
    and "0 \<le> free_deceleration c" "free_deceleration c \<le> max_acceleration c"
    and "0 \<le> max_velocity c"
  shows "(dt * free_deceleration c < \<bar>fst (velocity c)\<bar> \<longrightarrow>
            acceleration (longitudinal dt ks c) = - sgn (fst (velocity c)) * free_deceleration c) \<and>
         (\<bar>fst (velocity c)\<bar> \<le> dt * free_deceleration c \<longrightarrow>
            acceleration (longitudinal dt ks c) = - fst (velocity c) / dt \<and>
            integrate_rnd (\<lambda>x. x) dt (longitudinal dt ks c) = 0)"
proof (intro conjI impI)
  assume h: "dt * free_deceleration c < \<bar>fst (velocity c)\<bar>"
  with assms(1,4) have nz: "fst (velocity c) \<noteq> 0"
    by (metis abs_zero mult_nonneg_nonneg less_eq_real_def not_less)
  from h assms(2-5) nz show
    "acceleration (longitudinal dt ks c) = - sgn (fst (velocity c)) * free_deceleration c"
    by (auto simp: longitudinal_def Let_def copysign_def clamp_def sgn_real_def)
next
  assume h: "\<bar>fst (velocity c)\<bar> \<le> dt * free_deceleration c"
  then have "\<bar>fst (velocity c) / dt\<bar> \<le> free_deceleration c"
    using assms(1) by (simp add: field_simps)
  with assms(5) have b: "\<bar>- fst (velocity c) / dt\<bar> \<le> max_acceleration c" by simp
  from h assms(1-3) show a: "acceleration (longitudinal dt ks c) = - fst (velocity c) / dt"
    using clamp_id [OF b] by (simp add: longitudinal_def Let_def)
  from a assms(1,6) show "integrate_rnd (\<lambda>x. x) dt (longitudinal dt ks c) = 0"
    by (simp add: integrate_rnd_def longitudinal_fields clamp_def)
qed

lemma rest_stays_binary64:
  assumes "fst (velocity c) = 0" "0 \<le> dt" "\<not> K_UP ks" "\<not> K_DOWN ks"
    and "0 \<le> free_deceleration c" "0 \<le> max_acceleration c" "0 \<le> max_velocity c"
  shows "integrate_rnd round64 dt (longitudinal_rnd round64 dt ks c) = 0"
proof -
  have "0 \<le> round64 (dt * free_deceleration c)"
    using assms(2,5) by (intro round64_nonneg) simp
  then have n: "\<not> \<bar>fst (velocity c)\<bar> > round64 (dt * free_deceleration c)"
    using assms(1) by simp
  have v: "fst (velocity (longitudinal_rnd round64 dt ks c)) = 0"
    "max_velocity (longitudinal_rnd round64 dt ks c) = max_velocity c"
    using assms(1) by (simp_all add: longitudinal_rnd_def Let_def)
  show ?thesis
  proof (cases "dt = 0")
    case True
    with v assms(7) show ?thesis by (simp add: integrate_rnd_def round64_0 clamp_def)
  next
    case False
    with n assms(1,3,4,6) have "acceleration (longitudinal_rnd round64 dt ks c) = 0"
      by (simp add: longitudinal_rnd_def Let_def round64_0 clamp_def)
    with v assms(7) show ?thesis by (simp add: integrate_rnd_def round64_0 clamp_def)
  qed
qed

lemma update_ego_slow:
  "EGO_Car_update (1 / 50) (lateral (1 / 50) no_keys (longitudinal (1 / 50) no_keys ego_slow)) =
     Inr ego_stopped"
  by (simp add: ego_slow_def ego_stopped_def EGO_Car_init_def no_keys_def longitudinal_def
      lateral_def EGO_Car_update_def angular_velocity_def clamp_def vadd_def vscale_def
      rotate_vec_def degrees_def)

subsection \<open>The end conditions\<close>

text \<open>
  Claim C2. A clause of the end condition holds for the ego and another vehicle exactly
  when \<open>|ego.y - other.y| < 4\<close> and \<open>|ego.x - other.x| < 2\<close>, whatever the heading. The
  loop prints \<open>Crash\<close> exactly when the ambulance has not passed the exit line and some
  vehicle is within that box or the ego is outside the corridor. With the ego at (7, 64)
  and the ambulance at (7, 67) the first check reports \<open>Crash\<close>.
\<close>

theorem collision_box:
  "near e other = (\<bar>snd e - snd other\<bar> < 4 \<and> \<bar>fst e - fst other\<bar> < 2) \<and>
   (check_end s = Some Crash) =
     (1 \<le> snd (position (amu s)) \<and>
      ((\<exists>a \<in> {amu s, car1 s, car2 s, car3 s, car4 s, car5 s}.
          \<bar>snd (position (ecar s)) - snd (position a)\<bar> < 4 \<and>
          \<bar>fst (position (ecar s)) - fst (position a)\<bar> < 2) \<or>
       14.5 < fst (position (ecar s)) \<or> fst (position (ecar s)) < 0))"
  unfolding check_end_def end_condition_def near_abs by auto

theorem collision_box_witness:
  "position (ecar scene_close) = (7, 64) \<and> position (amu scene_close) = (7, 67) \<and>
   near (7, 64) (7, 67) \<and> check_end scene_close = Some Crash"
  using collision_box [of "(7, 64)" "(7, 67)" scene_close]
  by (simp add: scene_defs)

text \<open>
  Claim C5. When the ambulance's y is below 1 the check yields \<open>End of the round\<close>,
  whatever the other clauses say (here \<open>t\<close> is any scene: vehicles in the box or an ego
  outside the corridor do not turn the outcome into \<open>Crash\<close>). An iteration that ends
  with an outcome stops the loop: the frames that follow are not processed, and a run
  that has stopped gives the same outcome and scene however many frames are appended.
\<close>

theorem priority_exit_first:
  "(snd (position (amu t)) < 1 \<longrightarrow> check_end t = Some End_of_the_round) \<and>
   (\<not> exit s \<and> iteration f s = Inr (s1, Some out) \<longrightarrow> run (f # fs) s = Stopped out s1) \<and>
   (run gs u = Stopped out' u1 \<longrightarrow> run (gs @ rest) u = Stopped out' u1)"
  by (simp add: check_end_def end_condition_def run_stopped_append)

theorem priority_exit_first_witness:
  "snd (position (amu scene_exited)) < 1 \<and>
   14.5 < fst (position (ecar scene_exited)) \<and>
   check_end scene_exited = Some End_of_the_round \<and>
   \<not> exit scene_close \<and>
   iteration (idle_frame 0) scene_close = Inr (scene_close_checked, Some Crash) \<and>
   run (idle_frame 0 # [idle_frame 16, idle_frame 16]) scene_close =
     Stopped Crash scene_close_checked \<and>
   run [idle_frame 0] scene_close = Stopped Crash scene_close_checked \<and>
   run ([idle_frame 0] @ [idle_frame 1000]) scene_close = Stopped Crash scene_close_checked"
proof -
  have a: "snd (position (amu scene_exited)) < 1" "14.5 < fst (position (ecar scene_exited))"
    by (simp_all add: scene_defs)
  have b: "\<not> exit scene_close" by (simp add: scene_defs)
  note c = iteration_scene_close
  have d: "run [idle_frame 0] scene_close = Stopped Crash scene_close_checked"
    using b c by simp
  from priority_exit_first [of scene_exited scene_close "idle_frame 0" scene_close_checked
      Crash "[idle_frame 16, idle_frame 16]" "[idle_frame 0]" scene_close Crash
      scene_close_checked "[idle_frame 1000]"] a b c d
  show ?thesis by simp
qed

text \<open>
  Claim C6, as the code has it. When the ego's x is above 14.5 or below 0 and the
  ambulance has not passed the exit line, the check ends the loop with \<open>Crash\<close>, the
  outcome it also gives for a vehicle within the box, wherever the other vehicles are.
\<close>

theorem out_of_bounds_reported_as_crash:
  assumes "14.5 < fst (position (ecar s)) \<or> fst (position (ecar s)) < 0"
    and "1 \<le> snd (position (amu s))"
  shows "check_end s = Some Crash"
  using assms by (auto simp: check_end_def end_condition_def)

theorem out_of_bounds_reported_as_crash_witness:
  "14.5 < fst (position (ecar scene_outside)) \<and> 1 \<le> snd (position (amu scene_outside)) \<and>
   check_end scene_outside = Some Crash"
  using out_of_bounds_reported_as_crash [of scene_outside]
  by (simp add: scene_defs)

text \<open>
  Claim C6, as stated, fails: the scene with the ego at x = 15 and no vehicle within the
  box, and the scene with the ego inside the corridor and the ambulance within the box,
  get the same outcome \<open>Crash\<close>; no outcome of the loop tells them apart.
\<close>

theorem out_of_bounds_not_distinct:
  "14.5 < fst (position (ecar scene_outside)) \<and>
   \<not> near (position (ecar scene_outside)) (position (amu scene_outside)) \<and>
   \<not> near (position (ecar scene_outside)) (position (car1 scene_outside)) \<and>
   \<not> near (position (ecar scene_outside)) (position (car2 scene_outside)) \<and>
   \<not> near (position (ecar scene_outside)) (position (car3 scene_outside)) \<and>
   \<not> near (position (ecar scene_outside)) (position (car4 scene_outside)) \<and>
   \<not> near (position (ecar scene_outside)) (position (car5 scene_outside)) \<and>
   near (position (ecar scene_close)) (position (amu scene_close)) \<and>
   0 \<le> fst (position (ecar scene_close)) \<and> fst (position (ecar scene_close)) \<le> 14.5 \<and>
   check_end scene_outside = Some Crash \<and>
   check_end scene_close = check_end scene_outside"
  by (simp add: scene_defs check_end_def end_condition_def near_def)

subsection \<open>The non-controlled vehicles\<close>

text \<open>
  Claim C9. A non-controlled vehicle is constructed with velocity \<open>(0, vel)\<close>, and its
  update adds \<open>velocity * dt\<close> to the position only: after any sequence of updates, with
  any \<open>dt\<close> values, its x is the x it was constructed with and its velocity is unchanged.
  In the loop, whatever the frames, the six vehicles are at x = 7, 3, 11.5, 7, 3, 11.5 in
  every scene the run ends in, so the lateral separation from the ego changes with the
  ego's x alone.
\<close>

theorem other_cars_keep_x:
  "fst (position (fold O_Car_update dts (O_Car_init vel x y))) = x \<and>
   velocity (fold O_Car_update dts (O_Car_init vel x y)) = (0, vel) \<and>
   (final_state (run fs (initial random_offset)) = Some s1 \<longrightarrow>
      lateral_of s1 = [7, 3, 11.5, 7, 3, 11.5])"
proof -
  have "fst (velocity (O_Car_init vel x y)) = 0" by (simp add: O_Car_init_def)
  from fold_O_Car_update [OF this, of dts]
  have a: "fst (position (fold O_Car_update dts (O_Car_init vel x y))) = x \<and>
   velocity (fold O_Car_update dts (O_Car_init vel x y)) = (0, vel)"
    by (simp add: O_Car_init_def)
  have "sideways_of (initial random_offset) = [0, 0, 0, 0, 0, 0]"
    by (simp add: sideways_of_def initial_def O_Car_init_def)
  then have "final_state (run fs (initial random_offset)) = Some s1 \<longrightarrow>
      lateral_of s1 = lateral_of (initial random_offset)"
    using run_lateral by blast
  with a show ?thesis by (simp add: lateral_of_def initial_def O_Car_init_def)
qed

theorem other_cars_keep_x_witness:
  "final_state (run [idle_frame 1000] (initial 7)) = Some scene_after_1s \<and>
   lateral_of scene_after_1s = [7, 3, 11.5, 7, 3, 11.5] \<and>
   fst (position (fold O_Car_update [- 1, - 0.5] (O_Car_init 8.31 7 70))) = 7"
proof -
  have r: "final_state (run [idle_frame 1000] (initial 7)) = Some scene_after_1s"
    by (simp only: run_one_idle final_state.simps)
  from other_cars_keep_x [of "[- 1, - 0.5]" "8.31" 7 70 "[idle_frame 1000]" 7 scene_after_1s] r
  show ?thesis by blast
qed

subsection \<open>The control policy\<close>

text \<open>
  Claim C10. With accelerate and brake both held, the longitudinal policy does what it
  does with accelerate alone: the accelerate branch sets the acceleration and the brake
  branch is not taken. With steer-right and steer-left both held, the lateral policy does
  what it does with steer-right alone: the steering decreases by \<open>30 * dt\<close>.
\<close>

theorem opposing_intents_precedence:
  "longitudinal dt (ks\<lparr>K_UP := True, K_DOWN := True\<rparr>) c =
     longitudinal dt (ks\<lparr>K_UP := True, K_DOWN := False\<rparr>) c \<and>
   acceleration (longitudinal dt (ks\<lparr>K_UP := True, K_DOWN := True\<rparr>) c) =
     clamp (max_acceleration c)
       (if fst (velocity c) < 0 then brake_deceleration c else acceleration c + 1 * dt) \<and>
   lateral dt (ks\<lparr>K_RIGHT := True, K_LEFT := True\<rparr>) c =
     lateral dt (ks\<lparr>K_RIGHT := True, K_LEFT := False\<rparr>) c \<and>
   steering (lateral dt (ks\<lparr>K_RIGHT := True, K_LEFT := True\<rparr>) c) =
     clamp (max_steering c) (steering c - 30 * dt)"
  by (simp add: longitudinal_def lateral_def)

subsection \<open>The ego vehicle\<close>

text \<open>
  Claim C1. Whatever the frames (key states and durations), in the scene after each
  iteration of the loop the ego satisfies \<open>|velocity.x| \<le> max_velocity\<close>,
  \<open>|steering| \<le> max_steering\<close> and \<open>|acceleration| \<le> max_acceleration\<close>, and the three
  bounds are the constructed ones. A run over a prefix of the frames ends in the scene
  after that prefix, so the statement covers every tick. The bounds are not negative
  (13.85, 30 and 5 in the constructed ego).
\<close>

theorem ego_limits_every_tick:
  assumes "0 \<le> max_velocity (ecar s)" "0 \<le> max_steering (ecar s)"
    "0 \<le> max_acceleration (ecar s)"
    and "\<not> exit s" "fs \<noteq> []"
    and "final_state (run fs s) = Some s1"
  shows "\<bar>fst (velocity (ecar s1))\<bar> \<le> max_velocity (ecar s1) \<and>
         \<bar>steering (ecar s1)\<bar> \<le> max_steering (ecar s1) \<and>
         \<bar>acceleration (ecar s1)\<bar> \<le> max_acceleration (ecar s1) \<and>
         max_velocity (ecar s1) = max_velocity (ecar s) \<and>
         max_steering (ecar s1) = max_steering (ecar s) \<and>
         max_acceleration (ecar s1) = max_acceleration (ecar s)"
  using run_limits [of fs s s1] assms by (simp add: within_limits_def limits_of_def)

theorem ego_limits_every_tick_witness:
  "final_state (run [idle_frame 1000] (initial 7)) = Some scene_after_1s \<and>
   \<bar>fst (velocity (ecar scene_after_1s))\<bar> \<le> 13.85 \<and>
   \<bar>steering (ecar scene_after_1s)\<bar> \<le> 30 \<and>
   \<bar>acceleration (ecar scene_after_1s)\<bar> \<le> 5"
proof -
  have r: "final_state (run [idle_frame 1000] (initial 7)) = Some scene_after_1s"
    by (simp only: run_one_idle final_state.simps)
  have i: "0 \<le> max_velocity (ecar (initial 7))" "0 \<le> max_steering (ecar (initial 7))"
    "0 \<le> max_acceleration (ecar (initial 7))" "\<not> exit (initial 7)"
    "[idle_frame 1000] \<noteq> []"
    by (simp_all add: initial_def EGO_Car_init_def)
  from ego_limits_every_tick [OF i r] r show ?thesis
    by (simp add: initial_def EGO_Car_init_def)
qed

text \<open>
  Claim C3. An update of the ego with \<open>steering \<noteq> 0\<close> that raises nothing changes the
  heading by \<open>degrees(velocity.x * sin(radians(steering)) / length) * dt\<close>, which is
  \<open>degrees(velocity.x / (length / sin(radians(steering)))) * dt\<close>, where \<open>velocity.x\<close> is
  the velocity this update has integrated and clamped; it raises nothing when the length
  is not 0 and \<open>|steering| < 180\<close>. With \<open>steering = 0\<close> the update raises nothing and
  leaves the heading as it is, whatever the velocity.
\<close>

theorem heading_update:
  "(steering c = 0 \<longrightarrow>
      (\<exists>c1. EGO_Car_update dt c = Inr c1 \<and> angle c1 = angle c)) \<and>
   (steering b \<noteq> 0 \<and> length_car b \<noteq> 0 \<and> \<bar>steering b\<bar> < 180 \<longrightarrow>
      (\<exists>b1. EGO_Car_update dt b = Inr b1)) \<and>
   (steering a \<noteq> 0 \<and> EGO_Car_update dt a = Inr a1 \<longrightarrow>
      angle a1 = angle a +
        degrees (fst (velocity a1) * sin (radians (steering a)) / length_car a) * dt \<and>
      fst (velocity a1) * sin (radians (steering a)) / length_car a =
        fst (velocity a1) / (length_car a / sin (radians (steering a))) \<and>
      fst (velocity a1) = clamp (max_velocity a) (fst (velocity a) + acceleration a * dt))"
proof (intro conjI impI)
  assume "steering c = 0"
  then show "\<exists>c1. EGO_Car_update dt c = Inr c1 \<and> angle c1 = angle c"
    by (simp add: EGO_Car_update_def Let_def angular_velocity_straight degrees_def)
next
  assume "steering b \<noteq> 0 \<and> length_car b \<noteq> 0 \<and> \<bar>steering b\<bar> < 180"
  then show "\<exists>b1. EGO_Car_update dt b = Inr b1"
    by (simp add: EGO_Car_update_def Let_def angular_velocity_ok)
next
  assume h: "steering a \<noteq> 0 \<and> EGO_Car_update dt a = Inr a1"
  from h EGO_Car_update_Inr [of dt a a1]
  show "angle a1 = angle a +
        degrees (fst (velocity a1) * sin (radians (steering a)) / length_car a) * dt"
    by simp
  show "fst (velocity a1) * sin (radians (steering a)) / length_car a =
        fst (velocity a1) / (length_car a / sin (radians (steering a)))"
    by simp
  from h EGO_Car_update_Inr [of dt a a1]
  show "fst (velocity a1) = clamp (max_velocity a) (fst (velocity a) + acceleration a * dt)"
    by simp
qed

theorem heading_update_witness:
  "steering (EGO_Car_init 7 64 90 4 30 5) = 0 \<and>
   (\<exists>c1. EGO_Car_update 1 (EGO_Car_init 7 64 90 4 30 5) = Inr c1 \<and> angle c1 = 90) \<and>
   steering ego_turning \<noteq> 0 \<and> EGO_Car_update 1 ego_turning = Inr ego_turned \<and>
   angle ego_turned = 90 + degrees (8.31 * sin (radians 30) / 4) * 1 \<and>
   angle ego_turned = 90 + degrees (8.31 / (4 / sin (radians 30))) * 1"
proof -
  have a: "steering (EGO_Car_init 7 64 90 4 30 5) = 0" by (simp add: EGO_Car_init_def)
  have b: "steering ego_turning \<noteq> 0 \<and> length_car ego_turning \<noteq> 0 \<and> \<bar>steering ego_turning\<bar> < 180"
    by (simp add: ego_turning_def EGO_Car_init_def)
  have v: "fst (velocity ego_turned) = 8.31" "steering ego_turning = 30"
    "length_car ego_turning = 4" "angle ego_turning = 90"
    "angle (EGO_Car_init 7 64 90 4 30 5) = 90"
    by (simp_all add: ego_turning_def ego_turned_def EGO_Car_init_def)
  from heading_update [of "EGO_Car_init 7 64 90 4 30 5" 1 ego_turning ego_turning ego_turned]
    a b update_ego_turning v
  show ?thesis by simp
qed

subsection \<open>The timestep\<close>

text \<open>
  The timestep of an iteration is the clock's millisecond count over 1000, so the loop
  never runs its body with a negative \<open>dt\<close>; nothing in the body looks at the sign of \<open>dt\<close>.
\<close>

lemma frame_dt_nonneg: "0 \<le> frame_dt f"
  by (simp add: frame_dt_def)

text \<open>
  Claim C8. An iteration with \<open>dt = 0\<close> that raises nothing, under any key state, leaves
  the position, heading and velocity of the ego and the six non-controlled vehicles as
  they were, provided the ego's speed is within \<open>max_velocity\<close> (as it is after
  construction and after every tick); the end conditions are still evaluated, on those
  poses, so the outcome is the one of the scene before. Such an iteration raises nothing
  when \<open>pressed\<close> is bound, the length is not 0 and \<open>0 \<le> max_steering < 180\<close>.
\<close>

theorem zero_dt_tick:
  "(tick 0 s = Inr (s1, r) \<and> \<bar>fst (velocity (ecar s))\<bar> \<le> max_velocity (ecar s) \<longrightarrow>
      position (ecar s1) = position (ecar s) \<and> angle (ecar s1) = angle (ecar s) \<and>
      velocity (ecar s1) = velocity (ecar s) \<and>
      amu s1 = amu s \<and> car1 s1 = car1 s \<and> car2 s1 = car2 s \<and> car3 s1 = car3 s \<and>
      car4 s1 = car4 s \<and> car5 s1 = car5 s \<and>
      r = check_end s1 \<and> check_end s1 = check_end s) \<and>
   (pressed t = Some ks \<and> length_car (ecar t) \<noteq> 0 \<and>
    0 \<le> max_steering (ecar t) \<and> max_steering (ecar t) < 180 \<longrightarrow>
      (\<exists>t1. tick 0 t = Inr (t1, check_end t)))"
proof (intro conjI impI)
  assume h: "tick 0 s = Inr (s1, r) \<and> \<bar>fst (velocity (ecar s))\<bar> \<le> max_velocity (ecar s)"
  then have t: "tick 0 s = Inr (s1, r)" by simp
  note fr = tick_0_frame [OF t]
  from fr h show "velocity (ecar s1) = velocity (ecar s)" by (simp add: clamp_id)
  from fr show "position (ecar s1) = position (ecar s)" "angle (ecar s1) = angle (ecar s)"
    "amu s1 = amu s" "car1 s1 = car1 s" "car2 s1 = car2 s" "car3 s1 = car3 s"
    "car4 s1 = car4 s" "car5 s1 = car5 s" by simp_all
  from tick_flags [OF t] show "r = check_end s1" by simp
  from fr show "check_end s1 = check_end s" by (intro check_end_positions) simp_all
next
  assume "pressed t = Some ks \<and> length_car (ecar t) \<noteq> 0 \<and>
    0 \<le> max_steering (ecar t) \<and> max_steering (ecar t) < 180"
  then show "\<exists>t1. tick 0 t = Inr (t1, check_end t)" using tick_0_total by blast
qed

theorem zero_dt_tick_witness:
  "tick 0 scene_close_started = Inr (scene_close_checked, Some Crash) \<and>
   \<bar>fst (velocity (ecar scene_close_started))\<bar> \<le> max_velocity (ecar scene_close_started) \<and>
   position (ecar scene_close_checked) = position (ecar scene_close_started) \<and>
   angle (ecar scene_close_checked) = angle (ecar scene_close_started) \<and>
   velocity (ecar scene_close_checked) = velocity (ecar scene_close_started) \<and>
   amu scene_close_checked = amu scene_close_started \<and>
   check_end scene_close_started = Some Crash \<and>
   pressed scene_close_started = Some no_keys \<and>
   (\<exists>t1. tick 0 scene_close_started = Inr (t1, check_end scene_close_started))"
proof -
  have a: "\<bar>fst (velocity (ecar scene_close_started))\<bar> \<le> max_velocity (ecar scene_close_started)"
    by (simp add: scene_close_started_def scene_defs)
  have b: "pressed scene_close_started = Some no_keys \<and>
      length_car (ecar scene_close_started) \<noteq> 0 \<and>
      0 \<le> max_steering (ecar scene_close_started) \<and>
      max_steering (ecar scene_close_started) < 180"
    by (simp add: scene_close_started_def scene_defs)
  from zero_dt_tick [of scene_close_started scene_close_checked "Some Crash"
      scene_close_started no_keys] a b tick_scene_close
  show ?thesis by simp
qed

subsection \<open>Coasting to rest\<close>

text \<open>
  Claim C4, as the code has it. For \<open>dt > 0\<close> with neither accelerate nor brake held:
  while \<open>|velocity.x| > dt * free_deceleration\<close> the acceleration is set to
  \<open>-sign(velocity.x) * free_deceleration\<close>; once \<open>|velocity.x| \<le> dt * free_deceleration\<close> it
  is set to \<open>-velocity.x / dt\<close>, which in exact arithmetic makes \<open>velocity.x\<close> exactly 0
  after that tick; and a \<open>velocity.x\<close> that is exactly 0 remains exactly 0 after a further
  no-input tick, in binary64 arithmetic as well. (\<open>free_deceleration\<close> is not negative
  and not above \<open>max_acceleration\<close>, and \<open>max_velocity\<close> is not negative: 1, 5 and 13.85
  in the constructed ego.)
\<close>

theorem coasting_stop:
  assumes "0 < dt" "\<not> K_UP ks" "\<not> K_DOWN ks"
    and "0 \<le> free_deceleration c" "free_deceleration c \<le> max_acceleration c"
    and "0 \<le> max_velocity c"
  shows "(dt * free_deceleration c < \<bar>fst (velocity c)\<bar> \<longrightarrow>
            acceleration (longitudinal dt ks c) = - sgn (fst (velocity c)) * free_deceleration c) \<and>
         (\<bar>fst (velocity c)\<bar> \<le> dt * free_deceleration c \<longrightarrow>
            acceleration (longitudinal dt ks c) = - fst (velocity c) / dt \<and>
            integrate_rnd (\<lambda>x. x) dt (longitudinal dt ks c) = 0) \<and>
         (\<bar>fst (velocity c)\<bar> \<le> dt * free_deceleration c \<and>
          EGO_Car_update dt (lateral dt ks (longitudinal dt ks c)) = Inr c1 \<longrightarrow>
            fst (velocity c1) = 0) \<and>
         (fst (velocity c) = 0 \<longrightarrow>
            integrate_rnd round64 dt (longitudinal_rnd round64 dt ks c) = 0)"
proof -
  note r = coasting_real [OF assms]
  have "fst (velocity c1) = 0"
    if "\<bar>fst (velocity c)\<bar> \<le> dt * free_deceleration c"
      and u: "EGO_Car_update dt (lateral dt ks (longitudinal dt ks c)) = Inr c1"
  proof -
    from integrate_rnd_exact [OF u]
    have "fst (velocity c1) = integrate_rnd (\<lambda>x. x) dt (longitudinal dt ks c)"
      by (simp add: integrate_rnd_def lateral_fields)
    with r that(1) show ?thesis by simp
  qed
  moreover have "integrate_rnd round64 dt (longitudinal_rnd round64 dt ks c) = 0"
    if "fst (velocity c) = 0"
    using rest_stays_binary64 [of c dt ks] that assms by simp
  ultimately show ?thesis using r by blast
qed

theorem coasting_stop_witness:
  "acceleration (longitudinal (1 / 50) no_keys (EGO_Car_init 7 64 90 4 30 5)) = - 1 \<and>
   acceleration (longitudinal (1 / 50) no_keys ego_slow) =
     - (1441151880771365 / 2 ^ 57) / (1 / 50) \<and>
   EGO_Car_update (1 / 50) (lateral (1 / 50) no_keys (longitudinal (1 / 50) no_keys ego_slow)) =
     Inr ego_stopped \<and>
   fst (velocity ego_stopped) = 0 \<and>
   integrate_rnd round64 (1 / 50) (longitudinal_rnd round64 (1 / 50) no_keys ego_stopped) = 0"
proof -
  have k: "\<not> K_UP no_keys" "\<not> K_DOWN no_keys" by (simp_all add: no_keys_def)
  have d: "(0::real) < 1 / 50" by simp
  have a: "0 \<le> free_deceleration (EGO_Car_init 7 64 90 4 30 5)"
    "free_deceleration (EGO_Car_init 7 64 90 4 30 5) \<le> max_acceleration (EGO_Car_init 7 64 90 4 30 5)"
    "0 \<le> max_velocity (EGO_Car_init 7 64 90 4 30 5)"
    by (simp_all add: EGO_Car_init_def)
  have a': "1 / 50 * free_deceleration (EGO_Car_init 7 64 90 4 30 5) <
      \<bar>fst (velocity (EGO_Car_init 7 64 90 4 30 5))\<bar>"
    "- sgn (fst (velocity (EGO_Car_init 7 64 90 4 30 5))) *
      free_deceleration (EGO_Car_init 7 64 90 4 30 5) = - 1"
    by (simp_all add: EGO_Car_init_def)
  from coasting_stop [OF d k a, of ego_stopped] a'
  have w1: "acceleration (longitudinal (1 / 50) no_keys (EGO_Car_init 7 64 90 4 30 5)) = - 1"
    by (simp only:)
  have b: "0 \<le> free_deceleration ego_slow" "free_deceleration ego_slow \<le> max_acceleration ego_slow"
    "0 \<le> max_velocity ego_slow"
    by (simp_all add: ego_slow_def EGO_Car_init_def)
  have b': "\<bar>fst (velocity ego_slow)\<bar> \<le> 1 / 50 * free_deceleration ego_slow"
    "- fst (velocity ego_slow) / (1 / 50) = - (1441151880771365 / 2 ^ 57) / (1 / 50)"
    by (simp_all add: ego_slow_def EGO_Car_init_def)
  from coasting_stop [OF d k b, of ego_stopped] b' update_ego_slow
  have w2: "acceleration (longitudinal (1 / 50) no_keys ego_slow) =
      - (1441151880771365 / 2 ^ 57) / (1 / 50)"
    and w3: "fst (velocity ego_stopped) = 0"
    by (simp_all only:)
  have c: "0 \<le> free_deceleration ego_stopped"
    "free_deceleration ego_stopped \<le> max_acceleration ego_stopped"
    "0 \<le> max_velocity ego_stopped"
    by (simp_all add: ego_stopped_def ego_slow_def EGO_Car_init_def)
  from coasting_stop [OF d k c, of ego_stopped] w3
  have w4: "integrate_rnd round64 (1 / 50) (longitudinal_rnd round64 (1 / 50) no_keys ego_stopped) = 0"
    by (simp only:)
  from w1 w2 w3 w4 update_ego_slow show ?thesis by (intro conjI)
qed

text \<open>
  Claim C4, as stated, fails in the program's arithmetic: with a frame of 20 ms and the
  ego at the binary64 speed 0x1.47ae147aedc94p-7 (the speed 415 no-input frames of 20 ms
  leave of the initial 8.31), the tick takes the stopping branch and leaves
  \<open>velocity.x\<close> at \<open>-2^-59\<close>, not at 0, and on the other side of 0.
\<close>

theorem coasting_stop_residue:
  "0 < frame_dt_rnd round64 (idle_frame 20) \<and> \<not> K_UP no_keys \<and> \<not> K_DOWN no_keys \<and>
   \<bar>fst (velocity ego_slow)\<bar> \<le>
     round64 (frame_dt_rnd round64 (idle_frame 20) * free_deceleration ego_slow) \<and>
   fst (velocity ego_slow) = 1441151880771365 / 2 ^ 57 \<and>
   integrate_rnd round64 (frame_dt_rnd round64 (idle_frame 20))
     (longitudinal_rnd round64 (frame_dt_rnd round64 (idle_frame 20)) no_keys ego_slow) =
     - (1 / 2 ^ 59) \<and>
   integrate_rnd round64 (frame_dt_rnd round64 (idle_frame 20))
     (longitudinal_rnd round64 (frame_dt_rnd round64 (idle_frame 20)) no_keys ego_slow) \<noteq> 0"
proof -
  have d: "frame_dt_rnd round64 (idle_frame 20) = 5764607523034235 / 2 ^ 58"
    using stop_20ms by (rule conjunct1)
  have k: "\<not> K_UP no_keys" "\<not> K_DOWN no_keys" by (simp_all add: no_keys_def)
  have v: "fst (velocity ego_slow) = 1441151880771365 / 2 ^ 57"
    and f: "free_deceleration ego_slow = 1"
    by (simp_all add: ego_slow_def EGO_Car_init_def)
  have r: "round64 (5764607523034235 / 2 ^ 58 * free_deceleration ego_slow) =
      5764607523034235 / 2 ^ 58"
    by (simp only: f mult_1_right dt20_fixed)
  have p: "(0::real) < 5764607523034235 / 2 ^ 58" by simp
  have le: "\<bar>fst (velocity ego_slow)\<bar> \<le>
      round64 (5764607523034235 / 2 ^ 58 * free_deceleration ego_slow)"
    unfolding r v by simp
  have i: "integrate_rnd round64 (5764607523034235 / 2 ^ 58)
     (longitudinal_rnd round64 (5764607523034235 / 2 ^ 58) no_keys ego_slow) = - (1 / 2 ^ 59)"
    using stop_20ms by (elim conjE)
  have nz: "integrate_rnd round64 (5764607523034235 / 2 ^ 58)
     (longitudinal_rnd round64 (5764607523034235 / 2 ^ 58) no_keys ego_slow) \<noteq> 0"
    unfolding i by simp
  from p k le v i nz show ?thesis unfolding d by (intro conjI)
qed

end
